theory Spec2Isabelle
  imports Main "HOL-Library.Word" "HOL-Library.Sublist"
begin

section \<open>PhishGuard: the background script\<close>

text \<open>
  The extension is one file, \<^verbatim>\<open>extension/background.js\<close>: the predicate
  \<^verbatim>\<open>isSuspicious(url)\<close> and one listener registered on
  \<^verbatim>\<open>chrome.webNavigation.onBeforeNavigate\<close>, which calls the predicate on
  \<^verbatim>\<open>details.url\<close> and, when it answers true, calls
  \<^verbatim>\<open>chrome.notifications.create\<close>.
\<close>

subsection \<open>JavaScript values\<close>

text \<open>
  A JavaScript string is a finite sequence of 16-bit code units, and \<^verbatim>\<open>length\<close>
  counts code units. ASCII characters are one code unit each, with the value of their
  ASCII code.
\<close>

type_synonym jsstring = "16 word list"

definition code_unit :: "char \<Rightarrow> 16 word" where
  "code_unit c = of_char c"

definition ascii :: "string \<Rightarrow> jsstring" where
  "ascii s = map code_unit s"

text \<open>
  The parameter of \<^verbatim>\<open>isSuspicious\<close> is untyped. The model carries the primitive
  values a caller can pass; of a number only the integer ones, since the function never
  looks at the value of a number.
\<close>

datatype jsval =
    JUndefined
  | JNull
  | JBoolean bool
  | JNumber int
  | JString jsstring

datatype js_error = TypeError

subsection \<open>The string operations the script uses\<close>

text \<open>
  \<^verbatim>\<open>String.prototype.startsWith(searchString)\<close> at position 0: true for the empty
  search string, false when the search string is longer than the receiver, and otherwise
  the comparison of the receiver's first code units with the search string.
\<close>

definition startsWith :: "jsstring \<Rightarrow> jsstring \<Rightarrow> bool" where
  "startsWith s t =
     (if length t = 0 then True
      else if length s < length t then False
      else take (length t) s = t)"

text \<open>
  \<^verbatim>\<open>String.prototype.includes(searchString)\<close> from position 0: the search string
  is looked for at each position of the receiver in turn, the end included (where only the
  empty search string is found).
\<close>

fun includes_js :: "jsstring \<Rightarrow> jsstring \<Rightarrow> bool" where
  "includes_js [] t = (t = [])"
| "includes_js (c # s) t = (startsWith (c # s) t \<or> includes_js s t)"

text \<open>
  \<^verbatim>\<open>url.length\<close>: reading a property of \<^verbatim>\<open>undefined\<close> or \<^verbatim>\<open>null\<close>
  throws a TypeError; a string has its number of code units; a boolean or a number has no
  such property, and the read gives \<^verbatim>\<open>undefined\<close> (here \<open>None\<close>).
\<close>

fun get_length :: "jsval \<Rightarrow> js_error + nat option" where
  "get_length JUndefined = Inl TypeError"
| "get_length JNull = Inl TypeError"
| "get_length (JBoolean b) = Inr None"
| "get_length (JNumber n) = Inr None"
| "get_length (JString s) = Inr (Some (length s))"

text \<open>
  \<^verbatim>\<open>x > k\<close> for the result of a length read: \<^verbatim>\<open>undefined\<close> converts to NaN, and
  a comparison with NaN is false.
\<close>

fun length_gt :: "nat option \<Rightarrow> nat \<Rightarrow> bool" where
  "length_gt None k = False"
| "length_gt (Some n) k = (k < n)"

text \<open>
  \<^verbatim>\<open>url.includes(t)\<close> and \<^verbatim>\<open>url.startsWith(t)\<close> as method calls on a value: on a
  string the method of \<^verbatim>\<open>String.prototype\<close> runs; \<^verbatim>\<open>undefined\<close> and
  \<^verbatim>\<open>null\<close> have no properties, booleans and numbers have no such method, and the
  call throws a TypeError.
\<close>

fun call_includes :: "jsval \<Rightarrow> jsstring \<Rightarrow> js_error + bool" where
  "call_includes (JString s) t = Inr (includes_js s t)"
| "call_includes JUndefined t = Inl TypeError"
| "call_includes JNull t = Inl TypeError"
| "call_includes (JBoolean b) t = Inl TypeError"
| "call_includes (JNumber n) t = Inl TypeError"

fun call_startsWith :: "jsval \<Rightarrow> jsstring \<Rightarrow> js_error + bool" where
  "call_startsWith (JString s) t = Inr (startsWith s t)"
| "call_startsWith JUndefined t = Inl TypeError"
| "call_startsWith JNull t = Inl TypeError"
| "call_startsWith (JBoolean b) t = Inl TypeError"
| "call_startsWith (JNumber n) t = Inl TypeError"

subsection \<open>The browser as the script sees it\<close>

text \<open>
  The argument of \<^verbatim>\<open>chrome.notifications.create\<close>, with the four fields the script
  sets.
\<close>

record notification_options =
  type :: jsstring
  iconUrl :: jsstring
  title :: jsstring
  message :: jsstring

text \<open>
  The state outside the script: the requests made to \<^verbatim>\<open>chrome.notifications.create\<close>
  so far, oldest first. The script has no variable of its own that outlives a call.
\<close>

record browser =
  notifications :: "notification_options list"

text \<open>
  \<^verbatim>\<open>chrome.notifications.create(options)\<close>: the request is handed to the browser. The
  script passes no callback and does not look at the result, so the model records the
  request and nothing else. The API is taken as present (the extension holds the
  notifications permission).
\<close>

definition notifications_create :: "notification_options \<Rightarrow> browser \<Rightarrow> browser" where
  "notifications_create options w = w\<lparr>notifications := notifications w @ [options]\<rparr>"

subsection \<open>The script\<close>

text \<open>
  Every function of the script is a computation over the browser state that either throws
  or returns a value.

  \<^verbatim>\<open>
  function isSuspicious(url) {
      if (url.length > 75) return true;
      if (url.includes('@')) return true;
      if (url.includes('-')) return true;
      if (!url.startsWith("https")) return true;
      return false;
  }
  \<close>
\<close>

definition isSuspicious :: "jsval \<Rightarrow> browser \<Rightarrow> (js_error + bool) \<times> browser" where
  "isSuspicious url w =
     ((case get_length url of
         Inl e \<Rightarrow> Inl e
       | Inr n \<Rightarrow>
           if length_gt n 75 then Inr True
           else
             (case call_includes url (ascii ''@'') of
                Inl e \<Rightarrow> Inl e
              | Inr at \<Rightarrow>
                  if at then Inr True
                  else
                    (case call_includes url (ascii ''-'') of
                       Inl e \<Rightarrow> Inl e
                     | Inr dash \<Rightarrow>
                         if dash then Inr True
                         else
                           (case call_startsWith url (ascii ''https'') of
                              Inl e \<Rightarrow> Inl e
                            | Inr https \<Rightarrow>
                                if \<not> https then Inr True
                                else Inr False)))),
      w)"

text \<open>
  The \<^verbatim>\<open>details\<close> object of an \<^verbatim>\<open>onBeforeNavigate\<close> event. The script reads the
  field \<^verbatim>\<open>url\<close> only, a string; whatever else the browser puts into the object is the
  extension part of the record. The second record is one such object, with three of the
  attributes the browser delivers.
\<close>

record details =
  url :: jsstring

record navigation_details = details +
  tabId :: int
  frameId :: int
  timeStamp :: int

text \<open>
  \<^verbatim>\<open>
  chrome.webNavigation.onBeforeNavigate.addListener(function(details) {
      let url = details.url;
      if (isSuspicious(url)) {
          chrome.notifications.create({
              type: "basic",
              iconUrl: "icon.png",
              title: "... PhishGuard Alert",
              message: "This site may be a phishing attempt!\n" + url
          });
      }
  }, {url: [{schemes: ["http", "https"]}]});
  \<close>
  The listener as the browser calls it with one event. An exception of
  \<^verbatim>\<open>isSuspicious\<close> is not caught and ends the listener. The title starts with
  U+26A0 (warning sign) and U+FE0F (variation selector 16), one code unit each; the
  \<^verbatim>\<open>\n\<close> of the message is a line feed.
\<close>

definition listener :: "'a details_scheme \<Rightarrow> browser \<Rightarrow> (js_error + unit) \<times> browser" where
  "listener details w =
     (let u = url details in
      case isSuspicious (JString u) w of
        (Inl e, w') \<Rightarrow> (Inl e, w')
      | (Inr suspicious, w') \<Rightarrow>
          if suspicious then
            (Inr (),
             notifications_create
               \<lparr>type = ascii ''basic'',
                iconUrl = ascii ''icon.png'',
                title = [0x26A0, 0xFE0F] @ ascii '' PhishGuard Alert'',
                message = ascii ''This site may be a phishing attempt!\<newline>'' @ u\<rparr> w')
          else (Inr (), w'))"

subsection \<open>The checks as a list\<close>

text \<open>
  The specification's reading of the evaluator, to compare the source with: the four
  conditions on a string as a list, in the order of the source, tried in turn, where the
  first one that holds decides.
\<close>

definition spec_checks :: "(jsstring \<Rightarrow> bool) list" where
  "spec_checks =
     [\<lambda>u. 75 < length u,
      \<lambda>u. includes_js u (ascii ''@''),
      \<lambda>u. includes_js u (ascii ''-''),
      \<lambda>u. \<not> startsWith u (ascii ''https'')]"

fun spec_first_true_wins :: "('a \<Rightarrow> bool) list \<Rightarrow> 'a \<Rightarrow> bool" where
  "spec_first_true_wins [] u = False"
| "spec_first_true_wins (c # cs) u = (if c u then True else spec_first_true_wins cs u)"

section \<open>Properties\<close>

subsection \<open>The string operations\<close>

lemma startsWith_prefix: "startsWith s t = prefix t s"
proof (cases "length t \<le> length s")
  case True
  then show ?thesis
    by (auto simp: startsWith_def prefix_def min_def dest: arg_cong [where f = length])
      (metis append_eq_conv_conj)+
next
  case False
  then have "\<not> prefix t s"
    by (auto dest: prefix_length_le)
  with False show ?thesis
    by (auto simp: startsWith_def)
qed

lemma includes_sublist: "includes_js s t = sublist t s"
  by (induction s) (simp_all add: startsWith_prefix sublist_Cons_right)

lemma includes_code_unit: "includes_js s [c] = (c \<in> set s)"
  by (induction s) (auto simp: startsWith_def)

lemma ascii_at: "ascii ''@'' = [code_unit CHR ''@'']"
  by (simp add: ascii_def)

lemma ascii_dash: "ascii ''-'' = [code_unit CHR ''-'']"
  by (simp add: ascii_def)

subsection \<open>The evaluator on strings\<close>

text \<open>
  On a string no operation of the evaluator throws, and the four checks read as: more than
  75 code units, the code unit of \<^verbatim>\<open>@\<close> among them, the code unit of
  \<^verbatim>\<open>-\<close> among them, and \<^verbatim>\<open>https\<close> not a prefix.
\<close>

lemma isSuspicious_JString:
  "isSuspicious (JString u) w =
     (Inr (75 < length u \<or> code_unit CHR ''@'' \<in> set u \<or> code_unit CHR ''-'' \<in> set u
           \<or> \<not> prefix (ascii ''https'') u), w)"
  by (simp add: isSuspicious_def ascii_at ascii_dash includes_code_unit startsWith_prefix)

lemma spec_first_true_wins_Bex: "spec_first_true_wins cs u = (\<exists>c \<in> set cs. c u)"
  by (induction cs) auto

lemma spec_checks_Bex:
  "(\<exists>c \<in> set spec_checks. c u) =
     (75 < length u \<or> code_unit CHR ''@'' \<in> set u \<or> code_unit CHR ''-'' \<in> set u
      \<or> \<not> prefix (ascii ''https'') u)"
  by (simp add: spec_checks_def ascii_at ascii_dash includes_code_unit startsWith_prefix)

subsection \<open>The listener\<close>

lemma listener_JString:
  "listener e w =
     (Inr (),
      if 75 < length (url e) \<or> code_unit CHR ''@'' \<in> set (url e)
         \<or> code_unit CHR ''-'' \<in> set (url e) \<or> \<not> prefix (ascii ''https'') (url e)
      then w\<lparr>notifications := notifications w @
             [\<lparr>type = ascii ''basic'',
               iconUrl = ascii ''icon.png'',
               title = [0x26A0, 0xFE0F] @ ascii '' PhishGuard Alert'',
               message = ascii ''This site may be a phishing attempt!\<newline>'' @ url e\<rparr>]\<rparr>
      else w)"
  by (simp add: listener_def isSuspicious_JString notifications_create_def Let_def)

subsection \<open>Other arguments\<close>

text \<open>
  The character \<^verbatim>\<open>-\<close> is handled like \<^verbatim>\<open>@\<close>. On a value that is not a string
  the evaluator throws: at the length read for \<^verbatim>\<open>undefined\<close> and \<^verbatim>\<open>null\<close>,
  at the first \<^verbatim>\<open>includes\<close> call for a boolean or a number.
\<close>

lemma isSuspicious_dash:
  "code_unit CHR ''-'' \<in> set u \<Longrightarrow> isSuspicious (JString u) w = (Inr True, w)"
  by (simp add: isSuspicious_JString)

lemma isSuspicious_not_string:
  "isSuspicious JUndefined w = (Inl TypeError, w)"
  "isSuspicious JNull w = (Inl TypeError, w)"
  "isSuspicious (JBoolean b) w = (Inl TypeError, w)"
  "isSuspicious (JNumber n) w = (Inl TypeError, w)"
  by (simp_all add: isSuspicious_def)

subsection \<open>The claims of the specification\<close>

text \<open>
  C1. For every string \<open>u\<close> the evaluator returns the disjunction of the four conditions:
  longer than 75, contains \<^verbatim>\<open>@\<close>, contains \<^verbatim>\<open>-\<close>, does not start
  with \<^verbatim>\<open>https\<close>. It returns false exactly when none of them holds, that is when
  \<open>u\<close> has length at most 75, contains neither character and starts with
  \<^verbatim>\<open>https\<close>. The order of the checks is immaterial: trying the four checks in
  any order (any list \<open>cs\<close> with the same elements), first true wins, gives the
  evaluator's result.
\<close>

theorem isSuspicious_disjunction:
  "isSuspicious (JString u) w =
     (Inr (75 < length u \<or> code_unit CHR ''@'' \<in> set u \<or> code_unit CHR ''-'' \<in> set u
           \<or> \<not> prefix (ascii ''https'') u), w)
   \<and> (fst (isSuspicious (JString u) w) = Inr False \<longleftrightarrow>
        length u \<le> 75 \<and> code_unit CHR ''@'' \<notin> set u \<and> code_unit CHR ''-'' \<notin> set u
        \<and> prefix (ascii ''https'') u)
   \<and> (set cs = set spec_checks \<longrightarrow>
        isSuspicious (JString u) w = (Inr (spec_first_true_wins cs u), w))"
proof (intro conjI impI)
  show "isSuspicious (JString u) w =
     (Inr (75 < length u \<or> code_unit CHR ''@'' \<in> set u \<or> code_unit CHR ''-'' \<in> set u
           \<or> \<not> prefix (ascii ''https'') u), w)"
    by (rule isSuspicious_JString)
  show "fst (isSuspicious (JString u) w) = Inr False \<longleftrightarrow>
        length u \<le> 75 \<and> code_unit CHR ''@'' \<notin> set u \<and> code_unit CHR ''-'' \<notin> set u
        \<and> prefix (ascii ''https'') u"
    by (auto simp: isSuspicious_JString)
next
  assume "set cs = set spec_checks"
  then have "spec_first_true_wins cs u = (\<exists>c \<in> set spec_checks. c u)"
    by (simp add: spec_first_true_wins_Bex)
  then show "isSuspicious (JString u) w = (Inr (spec_first_true_wins cs u), w)"
    by (simp add: isSuspicious_JString spec_checks_Bex)
qed

theorem isSuspicious_disjunction_witness:
  "isSuspicious (JString (ascii ''https://example.com'')) \<lparr>notifications = []\<rparr> =
     (Inr False, \<lparr>notifications = []\<rparr>)
   \<and> length (ascii ''https://example.com'') \<le> 75
   \<and> code_unit CHR ''@'' \<notin> set (ascii ''https://example.com'')
   \<and> code_unit CHR ''-'' \<notin> set (ascii ''https://example.com'')
   \<and> prefix (ascii ''https'') (ascii ''https://example.com'')
   \<and> set (rev spec_checks) = set spec_checks
   \<and> spec_first_true_wins (rev spec_checks) (ascii ''https://example.com'') = False"
proof -
  let ?u = "ascii ''https://example.com''"
  let ?w = "\<lparr>notifications = []\<rparr>"
  note t = isSuspicious_disjunction [of ?u ?w "rev spec_checks"]
  have c: "set (rev spec_checks) = set spec_checks"
    by simp
  have facts: "length ?u \<le> 75" "code_unit CHR ''@'' \<notin> set ?u"
    "code_unit CHR ''-'' \<notin> set ?u" "prefix (ascii ''https'') ?u"
    by (simp_all add: ascii_def code_unit_def)
  from t facts have v: "isSuspicious (JString ?u) ?w = (Inr False, ?w)"
    by simp
  from t c have "isSuspicious (JString ?u) ?w = (Inr (spec_first_true_wins (rev spec_checks) ?u), ?w)"
    by blast
  with v have "spec_first_true_wins (rev spec_checks) ?u = False"
    by simp
  with v c facts show ?thesis
    by blast
qed

text \<open>
  C2. For every event the listener applies the evaluator to the event's \<^verbatim>\<open>url\<close> field;
  the evaluator returns a verdict \<open>v\<close>, the listener returns normally, and the requests made
  to the browser grow by exactly one when \<open>v\<close> is true and by none when it is false. The
  request has type \<^verbatim>\<open>basic\<close>, the icon \<^verbatim>\<open>icon.png\<close>, the fixed title (warning
  sign, variation selector, \<^verbatim>\<open> PhishGuard Alert\<close>) and as message the fixed template,
  ending in a line feed, followed by the URL as it came.
\<close>

theorem listener_notifies:
  "\<exists>v. isSuspicious (JString (url e)) w = (Inr v, w)
     \<and> fst (listener e w) = Inr ()
     \<and> notifications (snd (listener e w)) =
         notifications w @
         (if v then
            [\<lparr>type = ascii ''basic'',
              iconUrl = ascii ''icon.png'',
              title = [0x26A0, 0xFE0F] @ ascii '' PhishGuard Alert'',
              message = ascii ''This site may be a phishing attempt!\<newline>'' @ url e\<rparr>]
          else [])"
  by (simp add: listener_JString isSuspicious_JString)

theorem listener_notifies_witness:
  "fst (listener \<lparr>url = ascii ''http://example.com''\<rparr> \<lparr>notifications = []\<rparr>) = Inr ()
   \<and> notifications (snd (listener \<lparr>url = ascii ''http://example.com''\<rparr> \<lparr>notifications = []\<rparr>)) =
       [\<lparr>type = ascii ''basic'',
         iconUrl = ascii ''icon.png'',
         title = [0x26A0, 0xFE0F] @ ascii '' PhishGuard Alert'',
         message = ascii ''This site may be a phishing attempt!\<newline>http://example.com''\<rparr>]
   \<and> fst (listener \<lparr>url = ascii ''https://example.com''\<rparr> \<lparr>notifications = []\<rparr>) = Inr ()
   \<and> notifications (snd (listener \<lparr>url = ascii ''https://example.com''\<rparr> \<lparr>notifications = []\<rparr>)) = []"
proof -
  let ?w = "\<lparr>notifications = []\<rparr>"
  let ?e1 = "\<lparr>url = ascii ''http://example.com''\<rparr>"
  let ?e2 = "\<lparr>url = ascii ''https://example.com''\<rparr>"
  have v1: "isSuspicious (JString (url ?e1)) ?w = (Inr True, ?w)"
    unfolding isSuspicious_JString by (simp add: ascii_def code_unit_def)
  have v2: "isSuspicious (JString (url ?e2)) ?w = (Inr False, ?w)"
    unfolding isSuspicious_JString by (simp add: ascii_def code_unit_def)
  from listener_notifies [of ?e1 ?w] v1
  have a: "fst (listener ?e1 ?w) = Inr ()"
    "notifications (snd (listener ?e1 ?w)) =
       [\<lparr>type = ascii ''basic'',
         iconUrl = ascii ''icon.png'',
         title = [0x26A0, 0xFE0F] @ ascii '' PhishGuard Alert'',
         message = ascii ''This site may be a phishing attempt!\<newline>'' @ url ?e1\<rparr>]"
    by auto
  from listener_notifies [of ?e2 ?w] v2
  have b: "fst (listener ?e2 ?w) = Inr ()" "notifications (snd (listener ?e2 ?w)) = []"
    by auto
  have m: "ascii ''This site may be a phishing attempt!\<newline>'' @ url ?e1 =
      ascii ''This site may be a phishing attempt!\<newline>http://example.com''"
    by (simp add: ascii_def)
  from a b show ?thesis
    unfolding m by blast
qed

text \<open>
  C3. The fourth check looks at the bare prefix \<^verbatim>\<open>https\<close> only: for every string that
  begins with these characters \<^verbatim>\<open>startsWith\<close> answers true, the check does not fire and
  the verdict is decided by the first three checks alone. So \<^verbatim>\<open>httpsxyz://a\<close>, which
  does not begin with \<^verbatim>\<open>https://\<close>, is short and has neither \<^verbatim>\<open>@\<close> nor
  \<^verbatim>\<open>-\<close>, gets the verdict false.
\<close>

theorem isSuspicious_bare_prefix:
  "(prefix (ascii ''https'') u \<longrightarrow>
      call_startsWith (JString u) (ascii ''https'') = Inr True
      \<and> isSuspicious (JString u) w =
          (Inr (75 < length u \<or> code_unit CHR ''@'' \<in> set u \<or> code_unit CHR ''-'' \<in> set u), w))
   \<and> \<not> prefix (ascii ''https://'') (ascii ''httpsxyz://a'')
   \<and> isSuspicious (JString (ascii ''httpsxyz://a'')) w = (Inr False, w)"
proof (intro conjI impI)
  assume p: "prefix (ascii ''https'') u"
  then show "call_startsWith (JString u) (ascii ''https'') = Inr True"
    by (simp add: startsWith_prefix)
  from p show "isSuspicious (JString u) w =
      (Inr (75 < length u \<or> code_unit CHR ''@'' \<in> set u \<or> code_unit CHR ''-'' \<in> set u), w)"
    by (simp add: isSuspicious_JString)
next
  show "\<not> prefix (ascii ''https://'') (ascii ''httpsxyz://a'')"
    by (simp add: ascii_def code_unit_def)
  show "isSuspicious (JString (ascii ''httpsxyz://a'')) w = (Inr False, w)"
    unfolding isSuspicious_JString by (simp add: ascii_def code_unit_def)
qed

theorem isSuspicious_bare_prefix_witness:
  "prefix (ascii ''https'') (ascii ''httpsxyz://a'')
   \<and> \<not> prefix (ascii ''https://'') (ascii ''httpsxyz://a'')
   \<and> call_startsWith (JString (ascii ''httpsxyz://a'')) (ascii ''https'') = Inr True
   \<and> isSuspicious (JString (ascii ''httpsxyz://a'')) \<lparr>notifications = []\<rparr> =
       (Inr False, \<lparr>notifications = []\<rparr>)"
proof -
  have p: "prefix (ascii ''https'') (ascii ''httpsxyz://a'')"
    by (simp add: ascii_def)
  from p isSuspicious_bare_prefix [of "ascii ''httpsxyz://a''" "\<lparr>notifications = []\<rparr>"]
  show ?thesis
    by blast
qed

text \<open>
  C4. For every string that does not start with the exact prefix \<^verbatim>\<open>https\<close> the
  evaluator returns true. The empty string gets true, and by the fourth check only: its
  length 0 is not above 75, both \<^verbatim>\<open>includes\<close> calls answer false, and
  \<^verbatim>\<open>startsWith\<close> answers false.
\<close>

theorem isSuspicious_not_https:
  "(\<not> prefix (ascii ''https'') u \<longrightarrow> isSuspicious (JString u) w = (Inr True, w))
   \<and> isSuspicious (JString []) w = (Inr True, w)
   \<and> get_length (JString []) = Inr (Some 0)
   \<and> \<not> length_gt (Some 0) 75
   \<and> call_includes (JString []) (ascii ''@'') = Inr False
   \<and> call_includes (JString []) (ascii ''-'') = Inr False
   \<and> call_startsWith (JString []) (ascii ''https'') = Inr False"
  by (simp add: isSuspicious_JString ascii_def startsWith_def)

theorem isSuspicious_not_https_witness:
  "\<not> prefix (ascii ''https'') (ascii ''HTTPS://example.com'')
   \<and> isSuspicious (JString (ascii ''HTTPS://example.com'')) \<lparr>notifications = []\<rparr> =
       (Inr True, \<lparr>notifications = []\<rparr>)
   \<and> isSuspicious (JString []) \<lparr>notifications = []\<rparr> = (Inr True, \<lparr>notifications = []\<rparr>)"
proof -
  have p: "\<not> prefix (ascii ''https'') (ascii ''HTTPS://example.com'')"
    by (simp add: ascii_def code_unit_def)
  from p isSuspicious_not_https [of "ascii ''HTTPS://example.com''" "\<lparr>notifications = []\<rparr>"]
  show ?thesis
    by blast
qed

text \<open>
  C5. For every string of more than 75 code units the evaluator returns true, whatever the
  string contains.
\<close>

theorem isSuspicious_long:
  "75 < length u \<Longrightarrow> isSuspicious (JString u) w = (Inr True, w)"
  by (simp add: isSuspicious_JString)

theorem isSuspicious_long_witness:
  "75 < length (ascii ''https'' @ replicate 76 (code_unit CHR ''a''))
   \<and> isSuspicious (JString (ascii ''https'' @ replicate 76 (code_unit CHR ''a'')))
         \<lparr>notifications = []\<rparr> = (Inr True, \<lparr>notifications = []\<rparr>)"
proof -
  have l: "75 < length (ascii ''https'' @ replicate 76 (code_unit CHR ''a''))"
    by (simp add: ascii_def)
  from l isSuspicious_long [OF l, of "\<lparr>notifications = []\<rparr>"] show ?thesis
    by blast
qed

text \<open>
  C6. For every string that contains the character \<^verbatim>\<open>@\<close> anywhere the evaluator
  returns true.
\<close>

theorem isSuspicious_at:
  "code_unit CHR ''@'' \<in> set u \<Longrightarrow> isSuspicious (JString u) w = (Inr True, w)"
  by (simp add: isSuspicious_JString)

theorem isSuspicious_at_witness:
  "code_unit CHR ''@'' \<in> set (ascii ''https://user@example.com'')
   \<and> isSuspicious (JString (ascii ''https://user@example.com'')) \<lparr>notifications = []\<rparr> =
       (Inr True, \<lparr>notifications = []\<rparr>)"
proof -
  have m: "code_unit CHR ''@'' \<in> set (ascii ''https://user@example.com'')"
    by (simp add: ascii_def)
  from m isSuspicious_at [OF m, of "\<lparr>notifications = []\<rparr>"] show ?thesis
    by blast
qed

text \<open>
  C7. On every string, the empty one included, the evaluator returns a boolean verdict and
  does not throw.
\<close>

theorem isSuspicious_total:
  "(\<exists>b. isSuspicious (JString u) w = (Inr b, w))
   \<and> (\<forall>e. fst (isSuspicious (JString u) w) \<noteq> Inl e)"
  by (simp add: isSuspicious_JString)

theorem isSuspicious_total_witness:
  "(\<exists>b. isSuspicious (JString []) \<lparr>notifications = []\<rparr> = (Inr b, \<lparr>notifications = []\<rparr>))
   \<and> (\<forall>e. fst (isSuspicious (JString []) \<lparr>notifications = []\<rparr>) \<noteq> Inl e)"
  by (rule isSuspicious_total [of "[]" "\<lparr>notifications = []\<rparr>"])

text \<open>
  C8. Calling the evaluator twice in a row on the same string gives the same result both
  times; the calls leave the browser state as it was, and the result is the same in any
  other state \<open>w'\<close>.
\<close>

theorem isSuspicious_stateless:
  "isSuspicious (JString u) w = (r1, w1) \<Longrightarrow> isSuspicious (JString u) w1 = (r2, w2) \<Longrightarrow>
     r1 = r2 \<and> w1 = w \<and> w2 = w
     \<and> fst (isSuspicious (JString u) w') = r1"
  by (auto simp: isSuspicious_def)

theorem isSuspicious_stateless_witness:
  "isSuspicious (JString (ascii ''https://example.com'')) \<lparr>notifications = []\<rparr> =
     (Inr False, \<lparr>notifications = []\<rparr>)
   \<and> fst (isSuspicious (JString (ascii ''https://example.com''))
       \<lparr>notifications =
          [\<lparr>type = ascii ''basic'', iconUrl = ascii ''icon.png'', title = [], message = []\<rparr>]\<rparr>) =
      Inr False"
proof -
  let ?u = "ascii ''https://example.com''"
  let ?w = "\<lparr>notifications = []\<rparr>"
  have v: "isSuspicious (JString ?u) ?w = (Inr False, ?w)"
    unfolding isSuspicious_JString by (simp add: ascii_def code_unit_def)
  from v isSuspicious_stateless [OF v v] show ?thesis
    by blast
qed

text \<open>
  C9. The outcome of the listener depends on the \<^verbatim>\<open>url\<close> field of the event only.
  For two events with the same \<^verbatim>\<open>url\<close>, whatever else they carry and in whatever
  states \<open>w1\<close> and \<open>w2\<close> they are handled: the verdicts are equal, the listener ends the
  same way, and the requests \<open>rs\<close> it adds are the same in every field; from the same state
  the two calls give the same result and state.
\<close>

theorem listener_url_only:
  fixes e1 :: "'a details_scheme" and e2 :: "'b details_scheme"
  shows "url e1 = url e2 \<Longrightarrow>
     fst (isSuspicious (JString (url e1)) w1) = fst (isSuspicious (JString (url e2)) w2)
     \<and> fst (listener e1 w1) = fst (listener e2 w2)
     \<and> (\<exists>rs. notifications (snd (listener e1 w1)) = notifications w1 @ rs
              \<and> notifications (snd (listener e2 w2)) = notifications w2 @ rs)
     \<and> listener e1 w = listener e2 w"
  by (simp add: listener_JString isSuspicious_JString)


theorem listener_url_only_witness:
  "url \<lparr>url = ascii ''http://example.com'', tabId = 1, frameId = 0, timeStamp = 100\<rparr> =
     url \<lparr>url = ascii ''http://example.com'', tabId = 7, frameId = 3, timeStamp = 999\<rparr>
   \<and> \<lparr>url = ascii ''http://example.com'', tabId = 1, frameId = 0, timeStamp = 100\<rparr> \<noteq>
       \<lparr>url = ascii ''http://example.com'', tabId = 7, frameId = 3, timeStamp = 999\<rparr>
   \<and> listener \<lparr>url = ascii ''http://example.com'', tabId = 1, frameId = 0, timeStamp = 100\<rparr>
         \<lparr>notifications = []\<rparr> =
       listener \<lparr>url = ascii ''http://example.com'', tabId = 7, frameId = 3, timeStamp = 999\<rparr>
         \<lparr>notifications = []\<rparr>"
proof -
  let ?e1 = "\<lparr>url = ascii ''http://example.com'', tabId = 1, frameId = 0, timeStamp = 100\<rparr>"
  let ?e2 = "\<lparr>url = ascii ''http://example.com'', tabId = 7, frameId = 3, timeStamp = 999\<rparr>"
  have u: "url ?e1 = url ?e2"
    by simp
  have d: "?e1 \<noteq> ?e2"
    by simp
  from u d listener_url_only [OF u, of _ _ "\<lparr>notifications = []\<rparr>"] show ?thesis
    by blast
qed

end
